theory Spec2Isabelle
  imports Complex_Main
begin

section \<open>Values\<close>

text \<open>
  A Python float. The finite values are modelled by exact real numbers (rounding, overflow
  and signed zeros are not modelled); the two infinities and NaN are kept, because the
  libraries return them instead of raising: NumPy and pandas divide by zero without an
  exception, and pandas answers NaN on an empty or degenerate series.
\<close>

datatype pyfloat = Fin real | PInf | NInf | NaN

text \<open>The comparison \<^verbatim>\<open>a < b\<close> of two floats: false as soon as one side is NaN.\<close>

fun flt :: "pyfloat \<Rightarrow> pyfloat \<Rightarrow> bool" where
  "flt (Fin a) (Fin b) = (a < b)"
| "flt NaN b = False"
| "flt a NaN = False"
| "flt a NInf = False"
| "flt PInf b = False"
| "flt NInf b = True"
| "flt (Fin a) PInf = True"

text \<open>\<^verbatim>\<open>a > b\<close> and \<^verbatim>\<open>a <= b\<close>.\<close>

definition fgt :: "pyfloat \<Rightarrow> pyfloat \<Rightarrow> bool" where
  "fgt a b = flt b a"


text \<open>
  The division \<^verbatim>\<open>a / b\<close> of two finite floats as NumPy and pandas compute it: a zero
  divisor raises nothing, the quotient is NaN (0/0) or an infinity.
\<close>

definition np_divide :: "real \<Rightarrow> real \<Rightarrow> pyfloat" where
  "np_divide a b =
     (if b \<noteq> 0 then Fin (a / b)
      else if a = 0 then NaN
      else if 0 < a then PInf
      else NInf)"

text \<open>
  The exceptions a run can end with. The first three are the error kinds the specification
  names; no source file defines or raises them. The others are the exceptions of the
  libraries, which the sources let propagate.
\<close>

datatype error =
    InsufficientDataError
  | DegenerateInputError
  | SingularDesignMatrixError
  | ValueError
  | TypeError
  | LinAlgError

section \<open>The dataset\<close>

text \<open>
  The merged DataFrame: one row per date, with the columns \<^verbatim>\<open>Date\<close>, \<^verbatim>\<open>DJI_Close\<close> and
  \<^verbatim>\<open>CO2_Level\<close>. The collector drops every row with a missing value, so a cell is a
  finite float.
\<close>

record observation =
  Date :: nat
  DJI_Close :: real
  CO2_Level :: real

type_synonym dataframe = "observation list"

section \<open>The pandas reductions of a Series\<close>

text \<open>
  \<^verbatim>\<open>Series.mean()\<close>, \<^verbatim>\<open>.var()\<close>, \<^verbatim>\<open>.std()\<close> (sample statistics, denominator N - 1),
  \<^verbatim>\<open>.min()\<close>, \<^verbatim>\<open>.max()\<close>, \<^verbatim>\<open>.median()\<close> and \<^verbatim>\<open>.quantile(q)\<close> (linear interpolation
  between the order statistics). None of them raises: on an empty series, and for the
  variance on a single value, the answer is NaN.
\<close>

definition series_mean :: "real list \<Rightarrow> pyfloat" where
  "series_mean xs = (if xs = [] then NaN else Fin (sum_list xs / real (length xs)))"

definition series_var :: "real list \<Rightarrow> pyfloat" where
  "series_var xs =
     (if length xs \<le> 1 then NaN
      else let m = sum_list xs / real (length xs)
           in Fin (sum_list (map (\<lambda>x. (x - m)\<^sup>2) xs) / real (length xs - 1)))"

definition series_std :: "real list \<Rightarrow> pyfloat" where
  "series_std xs = (case series_var xs of Fin v \<Rightarrow> Fin (sqrt v) | other \<Rightarrow> other)"

definition series_min :: "real list \<Rightarrow> pyfloat" where
  "series_min xs = (if xs = [] then NaN else Fin (Min (set xs)))"

definition series_max :: "real list \<Rightarrow> pyfloat" where
  "series_max xs = (if xs = [] then NaN else Fin (Max (set xs)))"

definition series_median :: "real list \<Rightarrow> pyfloat" where
  "series_median xs =
     (if xs = [] then NaN
      else let s = sort xs; n = length xs
           in if odd n then Fin (s ! (n div 2))
              else Fin ((s ! (n div 2 - 1) + s ! (n div 2)) / 2))"

text \<open>
  The interpolated order statistic at the real position \<open>h\<close> of a sorted list: the value at
  \<open>\<lfloor>h\<rfloor>\<close> plus the fraction of the step to the next one (the last index has no next one).
\<close>

definition interpolate :: "real list \<Rightarrow> real \<Rightarrow> real" where
  "interpolate s h =
     (let lo = nat \<lfloor>h\<rfloor>; hi = min (lo + 1) (length s - 1)
      in s ! lo + (s ! hi - s ! lo) * (h - real lo))"

definition series_quantile :: "real list \<Rightarrow> real \<Rightarrow> pyfloat" where
  "series_quantile xs q =
     (if xs = [] then NaN
      else Fin (interpolate (sort xs) (q * real (length xs - 1))))"

section \<open>The analyzer\<close>

text \<open>
  The design matrix \<^verbatim>\<open>sm.add_constant\<close> returns for a one-column input. With its default
  \<^verbatim>\<open>has_constant='skip'\<close> it prepends the column \<^verbatim>\<open>const\<close> of ones unless the input column
  is itself a nonzero constant, in which case the input comes back unchanged.
\<close>

datatype design = With_const "real list" | Without_const "real list"

definition is_nonzero_const :: "real list \<Rightarrow> bool" where
  "is_nonzero_const xs = (xs \<noteq> [] \<and> Max (set xs) - Min (set xs) = 0 \<and> (\<exists>x \<in> set xs. x \<noteq> 0))"

definition add_constant :: "real list \<Rightarrow> design" where
  "add_constant xs = (if is_nonzero_const xs then Without_const xs else With_const xs)"

text \<open>The regressor column of a design matrix.\<close>

fun regressor :: "design \<Rightarrow> real list" where
  "regressor (With_const xs) = xs"
| "regressor (Without_const xs) = xs"

text \<open>
  \<^verbatim>\<open>StatisticalAnalyzer\<close>: the fields \<^verbatim>\<open>self.data\<close>, \<^verbatim>\<open>self.X\<close> and \<^verbatim>\<open>self.y\<close>.
\<close>

record analyzer =
  self_data :: dataframe
  self_X :: design
  self_y :: "real list"

text \<open>\<^verbatim>\<open>_prepare_regression_data\<close> sets \<^verbatim>\<open>self.y\<close> and \<^verbatim>\<open>self.X\<close> from \<^verbatim>\<open>self.data\<close>.\<close>

definition prepare_regression_data :: "analyzer \<Rightarrow> analyzer" where
  "prepare_regression_data a =
     a\<lparr>self_y := map DJI_Close (self_data a),
       self_X := add_constant (map CO2_Level (self_data a))\<rparr>"

text \<open>
  \<^verbatim>\<open>__init__\<close> stores the data and prepares the regression data; it checks nothing. (The
  two fields are \<^verbatim>\<open>None\<close> until \<^verbatim>\<open>_prepare_regression_data\<close> overwrites them; here they
  start empty.)
\<close>

definition StatisticalAnalyzer :: "dataframe \<Rightarrow> analyzer" where
  "StatisticalAnalyzer d =
     prepare_regression_data \<lparr>self_data = d, self_X = With_const [], self_y = []\<rparr>"

subsection \<open>Descriptive statistics\<close>

text \<open>
  The dictionary of one series. The keys \<^verbatim>\<open>min\<close> and \<^verbatim>\<open>max\<close> are the fields \<open>min_val\<close>
  and \<open>max_val\<close>.
\<close>

record descriptive =
  mean :: pyfloat
  std :: pyfloat
  var :: pyfloat
  min_val :: pyfloat
  max_val :: pyfloat
  median :: pyfloat
  q1 :: pyfloat
  q3 :: pyfloat

definition describe :: "real list \<Rightarrow> descriptive" where
  "describe xs =
     \<lparr>mean = series_mean xs,
      std = series_std xs,
      var = series_var xs,
      min_val = series_min xs,
      max_val = series_max xs,
      median = series_median xs,
      q1 = series_quantile xs (25 / 100),
      q3 = series_quantile xs (75 / 100)\<rparr>"

record descriptive_stats =
  DJI :: descriptive
  CO2 :: descriptive

definition compute_descriptive_stats :: "analyzer \<Rightarrow> descriptive_stats" where
  "compute_descriptive_stats a =
     \<lparr>DJI = describe (map DJI_Close (self_data a)),
      CO2 = describe (map CO2_Level (self_data a))\<rparr>"


subsection \<open>Correlation\<close>

text \<open>
  \<^verbatim>\<open>Series.corr\<close> (Pearson) of two columns of one frame: the co-moment divided by the product
  of the two root sums of squares, as \<^verbatim>\<open>np.corrcoef\<close> divides. Nothing is raised: an empty
  frame gives NaN, and so does a zero divisor.
\<close>

definition series_corr :: "real list \<Rightarrow> real list \<Rightarrow> pyfloat" where
  "series_corr xs ys =
     (if xs = [] then NaN
      else let mx = sum_list xs / real (length xs);
               my = sum_list ys / real (length ys);
               sxy = sum_list (map2 (\<lambda>x y. (x - mx) * (y - my)) xs ys);
               sxx = sum_list (map (\<lambda>x. (x - mx)\<^sup>2) xs);
               syy = sum_list (map (\<lambda>y. (y - my)\<^sup>2) ys)
           in np_divide sxy (sqrt sxx * sqrt syy))"

definition compute_correlation :: "analyzer \<Rightarrow> pyfloat" where
  "compute_correlation a =
     series_corr (map DJI_Close (self_data a)) (map CO2_Level (self_data a))"

subsection \<open>Ordinary least squares\<close>

text \<open>
  What the sources read of a fitted model: the parameters, the fitted values, the
  residuals, and the data the model was fitted on.
\<close>

record regression_results =
  params :: "real list"
  fittedvalues :: "real list"
  resid :: "real list"
  endog :: "real list"
  exog :: design

text \<open>
  \<^verbatim>\<open>sm.OLS(y, X).fit()\<close> in exact arithmetic. The library solves by the pseudo-inverse, so a
  rank-deficient design raises nothing: the fit is the least-squares solution of minimal
  norm. Only an empty sample and columns of different lengths are refused.
\<close>

definition OLS_fit :: "real list \<Rightarrow> design \<Rightarrow> error + regression_results" where
  "OLS_fit ys X =
     (if ys = [] \<or> length (regressor X) \<noteq> length ys then Inl ValueError
      else case X of
        With_const xs \<Rightarrow>
          (let mx = sum_list xs / real (length xs);
               my = sum_list ys / real (length ys);
               sxx = sum_list (map (\<lambda>x. (x - mx)\<^sup>2) xs);
               sxy = sum_list (map2 (\<lambda>x y. (x - mx) * (y - my)) xs ys);
               b = (if sxx \<noteq> 0 then sxy / sxx else my / (1 + mx\<^sup>2) * mx);
               c = (if sxx \<noteq> 0 then my - b * mx else my / (1 + mx\<^sup>2));
               fitted = map (\<lambda>x. c + b * x) xs
           in Inr \<lparr>params = [c, b], fittedvalues = fitted,
                   resid = map2 (\<lambda>y f. y - f) ys fitted, endog = ys, exog = X\<rparr>)
      | Without_const xs \<Rightarrow>
          (let sxx = sum_list (map (\<lambda>x. x\<^sup>2) xs);
               sxy = sum_list (map2 (\<lambda>x y. x * y) xs ys);
               b = (if sxx \<noteq> 0 then sxy / sxx else 0);
               fitted = map (\<lambda>x. b * x) xs
           in Inr \<lparr>params = [b], fittedvalues = fitted,
                   resid = map2 (\<lambda>y f. y - f) ys fitted, endog = ys, exog = X\<rparr>))"

definition run_ols_regression :: "analyzer \<Rightarrow> error + regression_results" where
  "run_ols_regression a = OLS_fit (self_y a) (self_X a)"

subsection \<open>The library routines taken as parameters\<close>

text \<open>
  The statistical tests, the weighted fit and the sampler are library routines whose
  results the sources only read. They are parameters of the model: each maps its
  arguments to a result or to the exception it raises. The sampler also reads the state
  \<open>'g\<close> of the global random generator, which it may use when no seed is given.
  A test returns the tuple (LM statistic, LM p-value, F statistic, F p-value);
  \<^verbatim>\<open>adfuller\<close> is given by the components 0, 1 and 4 of its tuple (statistic, p-value,
  critical values at 1%, 5% and 10%); \<^verbatim>\<open>shapiro\<close> returns (statistic, p-value).
\<close>

type_synonym test_tuple = "pyfloat \<times> pyfloat \<times> pyfloat \<times> pyfloat"

type_synonym critical = "pyfloat \<times> pyfloat \<times> pyfloat"

record ('g, 'w) stats_lib =
  sample :: "'g \<Rightarrow> nat option \<Rightarrow> nat \<Rightarrow> real list \<Rightarrow> (error + real list) \<times> 'g"
  shapiro :: "real list \<Rightarrow> error + pyfloat \<times> pyfloat"
  adfuller :: "real list \<Rightarrow> error + pyfloat \<times> pyfloat \<times> critical"
  het_breuschpagan :: "real list \<Rightarrow> design \<Rightarrow> error + test_tuple"
  het_white :: "real list \<Rightarrow> design \<Rightarrow> error + test_tuple"
  acorr_breusch_godfrey :: "regression_results \<Rightarrow> nat \<Rightarrow> error + test_tuple"
  WLS_fit :: "real list \<Rightarrow> design \<Rightarrow> pyfloat list \<Rightarrow> error + 'w"

text \<open>
  What a seed is for: the draw of a seeded call is the same whatever the state of the
  global generator.
\<close>

definition seed_determines_sample :: "('g, 'w) stats_lib \<Rightarrow> bool" where
  "seed_determines_sample lib =
     (\<forall>g g' seed n xs.
        fst (sample lib g (Some seed) n xs) = fst (sample lib g' (Some seed) n xs))"

subsection \<open>Normality\<close>

record normality_entry =
  statistic :: pyfloat
  p_value :: pyfloat
  is_normal :: bool

record normality =
  normality_DJI :: normality_entry
  normality_CO2 :: normality_entry

text \<open>
  \<^verbatim>\<open>test_normality\<close>: both columns are sampled with \<^verbatim>\<open>random_state=42\<close>, the second draw
  after the first, then tested. \<open>g\<close> is the state of the global generator at the call.
\<close>

definition test_normality ::
  "('g, 'w) stats_lib \<Rightarrow> 'g \<Rightarrow> nat \<Rightarrow> analyzer \<Rightarrow> error + normality" where
  "test_normality lib g sample_size a =
     (let n = min sample_size (length (self_data a));
          (r1, g1) = sample lib g (Some 42) n (map DJI_Close (self_data a))
      in case r1 of Inl e \<Rightarrow> Inl e | Inr sample_dji \<Rightarrow>
         (case shapiro lib sample_dji of Inl e \<Rightarrow> Inl e | Inr (stat_dji, p_dji) \<Rightarrow>
           (let (r2, g2) = sample lib g1 (Some 42) n (map CO2_Level (self_data a))
            in case r2 of Inl e \<Rightarrow> Inl e | Inr sample_co2 \<Rightarrow>
               (case shapiro lib sample_co2 of Inl e \<Rightarrow> Inl e | Inr (stat_co2, p_co2) \<Rightarrow>
                  Inr \<lparr>normality_DJI =
                         \<lparr>statistic = stat_dji, p_value = p_dji,
                          is_normal = fgt p_dji (Fin (5 / 100))\<rparr>,
                       normality_CO2 =
                         \<lparr>statistic = stat_co2, p_value = p_co2,
                          is_normal = fgt p_co2 (Fin (5 / 100))\<rparr>\<rparr>))))"

subsection \<open>Stationarity\<close>

record stationarity_entry =
  adf_statistic :: pyfloat
  adf_p_value :: pyfloat
  critical_values :: critical
  is_stationary :: bool

record stationarity =
  stationarity_DJI :: stationarity_entry
  stationarity_CO2 :: stationarity_entry

definition test_stationarity :: "('g, 'w) stats_lib \<Rightarrow> analyzer \<Rightarrow> error + stationarity" where
  "test_stationarity lib a =
     (case adfuller lib (map DJI_Close (self_data a)) of Inl e \<Rightarrow> Inl e
      | Inr (s_dji, p_dji, c_dji) \<Rightarrow>
     (case adfuller lib (map CO2_Level (self_data a)) of Inl e \<Rightarrow> Inl e
      | Inr (s_co2, p_co2, c_co2) \<Rightarrow>
         Inr \<lparr>stationarity_DJI =
                \<lparr>adf_statistic = s_dji, adf_p_value = p_dji, critical_values = c_dji,
                 is_stationary = flt p_dji (Fin (5 / 100))\<rparr>,
              stationarity_CO2 =
                \<lparr>adf_statistic = s_co2, adf_p_value = p_co2, critical_values = c_co2,
                 is_stationary = flt p_co2 (Fin (5 / 100))\<rparr>\<rparr>))"

subsection \<open>Heteroscedasticity\<close>

text \<open>
  The dictionary of one test; its key \<^verbatim>\<open>has_heteroscedasticity\<close> is the field
  \<open>rejects_homoscedasticity\<close>, the name \<open>has_heteroscedasticity\<close> being kept for the key
  of the enclosing dictionary.
\<close>

record het_test =
  lm_statistic :: pyfloat
  lm_p_value :: pyfloat
  f_statistic :: pyfloat
  f_p_value :: pyfloat
  rejects_homoscedasticity :: bool

record heteroscedasticity =
  breusch_pagan :: het_test
  white :: het_test
  has_heteroscedasticity :: bool

definition test_heteroscedasticity ::
  "('g, 'w) stats_lib \<Rightarrow> analyzer \<Rightarrow> error + heteroscedasticity" where
  "test_heteroscedasticity lib a =
     (case run_ols_regression a of Inl e \<Rightarrow> Inl e | Inr model \<Rightarrow>
     (case het_breuschpagan lib (resid model) (self_X a) of Inl e \<Rightarrow> Inl e
      | Inr (bp0, bp1, bp2, bp3) \<Rightarrow>
     (case het_white lib (resid model) (self_X a) of Inl e \<Rightarrow> Inl e
      | Inr (w0, w1, w2, w3) \<Rightarrow>
         Inr \<lparr>breusch_pagan =
                \<lparr>lm_statistic = bp0, lm_p_value = bp1, f_statistic = bp2, f_p_value = bp3,
                 rejects_homoscedasticity = flt bp1 (Fin (5 / 100))\<rparr>,
              white =
                \<lparr>lm_statistic = w0, lm_p_value = w1, f_statistic = w2, f_p_value = w3,
                 rejects_homoscedasticity = flt w1 (Fin (5 / 100))\<rparr>,
              has_heteroscedasticity =
                (flt bp1 (Fin (5 / 100)) \<or> flt w1 (Fin (5 / 100)))\<rparr>)))"

subsection \<open>Autocorrelation\<close>

text \<open>
  \<^verbatim>\<open>durbin_watson\<close>: the sum of the squared successive differences of the residuals over
  the sum of their squares, a NumPy division.
\<close>

definition durbin_watson :: "real list \<Rightarrow> pyfloat" where
  "durbin_watson e =
     np_divide (sum_list (map2 (\<lambda>u v. (u - v)\<^sup>2) (tl e) e)) (sum_list (map (\<lambda>v. v\<^sup>2) e))"

text \<open>
  The two sub-dictionaries; their keys \<^verbatim>\<open>statistic\<close>, \<^verbatim>\<open>lm_statistic\<close>, ... and
  \<^verbatim>\<open>has_autocorrelation\<close> carry the prefixes \<open>dw_\<close> and \<open>bg_\<close> here.
\<close>

record dw_test =
  dw_statistic :: pyfloat
  dw_has_autocorrelation :: bool

record bg_test =
  bg_lm_statistic :: pyfloat
  bg_lm_p_value :: pyfloat
  bg_f_statistic :: pyfloat
  bg_f_p_value :: pyfloat
  bg_has_autocorrelation :: bool

record autocorrelation =
  durbin_watson_test :: dw_test
  breusch_godfrey :: bg_test
  has_autocorrelation :: bool

definition test_autocorrelation ::
  "('g, 'w) stats_lib \<Rightarrow> analyzer \<Rightarrow> error + autocorrelation" where
  "test_autocorrelation lib a =
     (case run_ols_regression a of Inl e \<Rightarrow> Inl e | Inr model \<Rightarrow>
       (let dw_stat = durbin_watson (resid model)
        in case acorr_breusch_godfrey lib model 10 of Inl e \<Rightarrow> Inl e
           | Inr (bg0, bg1, bg2, bg3) \<Rightarrow>
               Inr \<lparr>durbin_watson_test =
                      \<lparr>dw_statistic = dw_stat,
                       dw_has_autocorrelation =
                         (flt dw_stat (Fin (15 / 10)) \<or> fgt dw_stat (Fin (25 / 10)))\<rparr>,
                    breusch_godfrey =
                      \<lparr>bg_lm_statistic = bg0, bg_lm_p_value = bg1, bg_f_statistic = bg2,
                       bg_f_p_value = bg3,
                       bg_has_autocorrelation = flt bg1 (Fin (5 / 100))\<rparr>,
                    has_autocorrelation =
                      (flt dw_stat (Fin (15 / 10)) \<or> fgt dw_stat (Fin (25 / 10))
                       \<or> flt bg1 (Fin (5 / 100)))\<rparr>))"

subsection \<open>Weighted least squares\<close>

text \<open>
  The weights of \<^verbatim>\<open>run_wls_regression\<close>: \<^verbatim>\<open>1 / (ols_model.resid ** 2)\<close>, elementwise, with
  no test of the divisor.
\<close>

definition wls_weights :: "regression_results \<Rightarrow> pyfloat list" where
  "wls_weights ols_model = map (\<lambda>e. np_divide 1 (e\<^sup>2)) (resid ols_model)"

definition run_wls_regression :: "('g, 'w) stats_lib \<Rightarrow> analyzer \<Rightarrow> error + 'w" where
  "run_wls_regression lib a =
     (case run_ols_regression a of Inl e \<Rightarrow> Inl e
      | Inr ols_model \<Rightarrow> WLS_fit lib (self_y a) (self_X a) (wls_weights ols_model))"

subsection \<open>The summary\<close>

record summary =
  sum_descriptive :: descriptive_stats
  sum_normality :: normality
  sum_stationarity :: stationarity
  sum_correlation :: pyfloat
  sum_heteroscedasticity :: heteroscedasticity
  sum_autocorrelation :: autocorrelation

text \<open>
  \<^verbatim>\<open>get_analysis_summary\<close> evaluates the six entries in the order of the dictionary
  literal; the normality test runs with its default cap of 5000.
\<close>

definition get_analysis_summary ::
  "('g, 'w) stats_lib \<Rightarrow> 'g \<Rightarrow> analyzer \<Rightarrow> error + summary" where
  "get_analysis_summary lib g a =
     (let d = compute_descriptive_stats a
      in case test_normality lib g 5000 a of Inl e \<Rightarrow> Inl e | Inr n \<Rightarrow>
        (case test_stationarity lib a of Inl e \<Rightarrow> Inl e | Inr s \<Rightarrow>
          (let c = compute_correlation a
           in case test_heteroscedasticity lib a of Inl e \<Rightarrow> Inl e | Inr h \<Rightarrow>
             (case test_autocorrelation lib a of Inl e \<Rightarrow> Inl e | Inr ac \<Rightarrow>
                Inr \<lparr>sum_descriptive = d, sum_normality = n, sum_stationarity = s,
                     sum_correlation = c, sum_heteroscedasticity = h,
                     sum_autocorrelation = ac\<rparr>))))"

section \<open>The pipeline\<close>

text \<open>
  \<^verbatim>\<open>EconometricAnalysis\<close>: the collected data (\<^verbatim>\<open>None\<close> before the collection), the
  dictionaries \<^verbatim>\<open>self.stats\<close> and \<^verbatim>\<open>self.models\<close>, each key of which is a field that is
  \<open>None\<close> while the key is absent, and the list of the analyzer's methods called so far,
  which the class does not hold and which stands for the calls themselves.
\<close>

record 'w econometric_analysis =
  data :: "dataframe option"
  stats_descriptive :: "descriptive_stats option"
  stats_normality :: "normality option"
  stats_stationarity :: "stationarity option"
  stats_correlation :: "pyfloat option"
  stats_heteroscedasticity :: "heteroscedasticity option"
  stats_autocorrelation :: "autocorrelation option"
  models_ols :: "regression_results option"
  models_wls :: "'w option"
  called :: "string list"

text \<open>\<^verbatim>\<open>__init__\<close>: no data, two empty dictionaries.\<close>

definition EconometricAnalysis :: "'w econometric_analysis" where
  "EconometricAnalysis =
     \<lparr>data = None,
      stats_descriptive = None, stats_normality = None, stats_stationarity = None,
      stats_correlation = None, stats_heteroscedasticity = None,
      stats_autocorrelation = None,
      models_ols = None, models_wls = None,
      called = []\<rparr>"

text \<open>
  \<^verbatim>\<open>_collect_data\<close> stores the frame the collector returns, here the argument \<open>d\<close>.
\<close>

definition collect_data :: "dataframe \<Rightarrow> 'w econometric_analysis \<Rightarrow> 'w econometric_analysis" where
  "collect_data d self = self\<lparr>data := Some d\<rparr>"

text \<open>
  \<^verbatim>\<open>_perform_statistical_analysis\<close>. An exception leaves the method at once; the weighted
  fit is behind the test of the flag just stored in \<^verbatim>\<open>self.stats\<close>.
\<close>

definition perform_statistical_analysis ::
  "('g, 'w) stats_lib \<Rightarrow> 'g \<Rightarrow> 'w econometric_analysis \<Rightarrow> error + 'w econometric_analysis"
  where
  "perform_statistical_analysis lib g self =
     (case data self of None \<Rightarrow> Inl TypeError | Some d \<Rightarrow>
      (let analyzer = StatisticalAnalyzer d;
           s1 = self\<lparr>stats_descriptive := Some (compute_descriptive_stats analyzer),
                     called := called self @ [''compute_descriptive_stats'']\<rparr>
       in case test_normality lib g 5000 analyzer of Inl e \<Rightarrow> Inl e | Inr n \<Rightarrow>
       (let s2 = s1\<lparr>stats_normality := Some n,
                     called := called s1 @ [''test_normality'']\<rparr>
       in case test_stationarity lib analyzer of Inl e \<Rightarrow> Inl e | Inr st \<Rightarrow>
       (let s3 = s2\<lparr>stats_stationarity := Some st,
                     called := called s2 @ [''test_stationarity'']\<rparr>;
            s4 = s3\<lparr>stats_correlation := Some (compute_correlation analyzer),
                     called := called s3 @ [''compute_correlation'']\<rparr>
       in case run_ols_regression analyzer of Inl e \<Rightarrow> Inl e | Inr ols \<Rightarrow>
       (let s5 = s4\<lparr>models_ols := Some ols,
                     called := called s4 @ [''run_ols_regression'']\<rparr>
       in case test_heteroscedasticity lib analyzer of Inl e \<Rightarrow> Inl e | Inr h \<Rightarrow>
       (let s6 = s5\<lparr>stats_heteroscedasticity := Some h,
                     called := called s5 @ [''test_heteroscedasticity'']\<rparr>
       in case test_autocorrelation lib analyzer of Inl e \<Rightarrow> Inl e | Inr ac \<Rightarrow>
       (let s7 = s6\<lparr>stats_autocorrelation := Some ac,
                     called := called s6 @ [''test_autocorrelation'']\<rparr>
       in case stats_heteroscedasticity s7 of None \<Rightarrow> Inl TypeError | Some h7 \<Rightarrow>
          if has_heteroscedasticity h7
          then (case run_wls_regression lib analyzer of Inl e \<Rightarrow> Inl e
                | Inr wls \<Rightarrow>
                    Inr (s7\<lparr>models_wls := Some wls,
                            called := called s7 @ [''run_wls_regression'']\<rparr>))
          else Inr s7)))))))"

section \<open>Concrete inputs\<close>

text \<open>
  A stand-in for the library routines, to run the model on concrete data. Its sampler
  rotates the series by the seed when one is given and by the state of the global
  generator otherwise, which it then advances; its weighted fit returns the weights it
  was given; its Breusch-Pagan test always rejects and its other tests never do.
\<close>

definition fixture_lib :: "(nat, pyfloat list) stats_lib" where
  "fixture_lib =
     \<lparr>sample = (\<lambda>g random_state n xs.
          case random_state of
            Some seed \<Rightarrow> (Inr (take n (rotate seed xs)), g)
          | None \<Rightarrow> (Inr (take n (rotate g xs)), Suc g)),
      shapiro = (\<lambda>xs. Inr (Fin 1, Fin (1 / 2))),
      adfuller = (\<lambda>xs. Inr (Fin 0, Fin (1 / 2), (Fin 0, Fin 0, Fin 0))),
      het_breuschpagan = (\<lambda>e X. Inr (Fin 4, Fin (1 / 100), Fin 4, Fin (1 / 100))),
      het_white = (\<lambda>e X. Inr (Fin 1, Fin (1 / 2), Fin 1, Fin (1 / 2))),
      acorr_breusch_godfrey = (\<lambda>m nlags. Inr (Fin 1, Fin (1 / 2), Fin 1, Fin (1 / 2))),
      WLS_fit = (\<lambda>ys X w. Inr w)\<rparr>"

text \<open>Three observations with a varying predictor.\<close>

definition three_rows :: dataframe where
  "three_rows =
     [\<lparr>Date = 0, DJI_Close = 1, CO2_Level = 1\<rparr>,
      \<lparr>Date = 1, DJI_Close = 3, CO2_Level = 2\<rparr>,
      \<lparr>Date = 2, DJI_Close = 2, CO2_Level = 3\<rparr>]"

text \<open>A series all of whose values are equal (zero variance).\<close>

definition constant_series :: "real list \<Rightarrow> bool" where
  "constant_series xs = (\<forall>x \<in> set xs. \<forall>y \<in> set xs. x = y)"


text \<open>Three observations whose predictor is constant.\<close>

definition flat_co2_rows :: dataframe where
  "flat_co2_rows =
     [\<lparr>Date = 0, DJI_Close = 1, CO2_Level = 2\<rparr>,
      \<lparr>Date = 1, DJI_Close = 2, CO2_Level = 2\<rparr>,
      \<lparr>Date = 2, DJI_Close = 3, CO2_Level = 2\<rparr>]"


section \<open>The analyzer on the three observations\<close>

lemma analyzer_three_rows:
  "StatisticalAnalyzer three_rows =
     \<lparr>self_data = three_rows, self_X = With_const [1, 2, 3], self_y = [1, 3, 2]\<rparr>"
  by (simp add: StatisticalAnalyzer_def prepare_regression_data_def three_rows_def
      add_constant_def is_nonzero_const_def)

lemma ols_three_rows:
  "run_ols_regression (StatisticalAnalyzer three_rows) =
     Inr \<lparr>params = [1, 1 / 2], fittedvalues = [3 / 2, 2, 5 / 2],
          resid = [- (1 / 2), 1, - (1 / 2)], endog = [1, 3, 2],
          exog = With_const [1, 2, 3]\<rparr>"
  by (simp add: analyzer_three_rows run_ols_regression_def OLS_fit_def Let_def power2_eq_square)

lemma het_three_rows:
  "test_heteroscedasticity fixture_lib (StatisticalAnalyzer three_rows) =
     Inr \<lparr>breusch_pagan =
            \<lparr>lm_statistic = Fin 4, lm_p_value = Fin (1 / 100),
             f_statistic = Fin 4, f_p_value = Fin (1 / 100),
             rejects_homoscedasticity = True\<rparr>,
          white =
            \<lparr>lm_statistic = Fin 1, lm_p_value = Fin (1 / 2),
             f_statistic = Fin 1, f_p_value = Fin (1 / 2),
             rejects_homoscedasticity = False\<rparr>,
          has_heteroscedasticity = True\<rparr>"
  by (simp add: test_heteroscedasticity_def ols_three_rows fixture_lib_def)

section \<open>Heteroscedasticity flags\<close>

text \<open>
  C6. Whenever \<^verbatim>\<open>test_heteroscedasticity\<close> returns, the two p-values of its result are the
  LM p-values the Breusch-Pagan and the White routine returned on the OLS residuals and the
  design matrix; the aggregate flag is true if and only if one of the two is below 0.05;
  and the flag of each test is true if and only if its own LM p-value is below 0.05.
\<close>

theorem test_heteroscedasticity_flags:
  "test_heteroscedasticity lib a = Inr r \<Longrightarrow>
     (\<exists>model bp0 bp2 bp3 w0 w2 w3.
        run_ols_regression a = Inr model
      \<and> het_breuschpagan lib (resid model) (self_X a)
          = Inr (bp0, lm_p_value (breusch_pagan r), bp2, bp3)
      \<and> het_white lib (resid model) (self_X a) = Inr (w0, lm_p_value (white r), w2, w3))
   \<and> has_heteroscedasticity r
       = (flt (lm_p_value (breusch_pagan r)) (Fin (5 / 100))
          \<or> flt (lm_p_value (white r)) (Fin (5 / 100)))
   \<and> rejects_homoscedasticity (breusch_pagan r)
       = flt (lm_p_value (breusch_pagan r)) (Fin (5 / 100))
   \<and> rejects_homoscedasticity (white r) = flt (lm_p_value (white r)) (Fin (5 / 100))"
  by (auto simp: test_heteroscedasticity_def split: sum.splits prod.splits)

text \<open>
  On the three observations, with the stand-in routines: the Breusch-Pagan p-value 0.01
  sets its flag and the aggregate flag, the White p-value 0.5 does not set its flag.
\<close>

theorem test_heteroscedasticity_flags_witness:
  "(\<exists>r. test_heteroscedasticity fixture_lib (StatisticalAnalyzer three_rows) = Inr r
      \<and> lm_p_value (breusch_pagan r) = Fin (1 / 100)
      \<and> lm_p_value (white r) = Fin (1 / 2)
      \<and> has_heteroscedasticity r
      \<and> rejects_homoscedasticity (breusch_pagan r)
      \<and> \<not> rejects_homoscedasticity (white r))"
  using test_heteroscedasticity_flags [OF het_three_rows] het_three_rows by simp

lemma dw_three_rows: "durbin_watson [- (1 / 2), 1, - (1 / 2)] = Fin 3"
  by (simp add: durbin_watson_def np_divide_def power2_eq_square)

lemma ac_three_rows:
  "test_autocorrelation fixture_lib (StatisticalAnalyzer three_rows) =
     Inr \<lparr>durbin_watson_test = \<lparr>dw_statistic = Fin 3, dw_has_autocorrelation = True\<rparr>,
          breusch_godfrey =
            \<lparr>bg_lm_statistic = Fin 1, bg_lm_p_value = Fin (1 / 2),
             bg_f_statistic = Fin 1, bg_f_p_value = Fin (1 / 2),
             bg_has_autocorrelation = False\<rparr>,
          has_autocorrelation = True\<rparr>"
  by (simp add: test_autocorrelation_def ols_three_rows fixture_lib_def dw_three_rows fgt_def)

lemma normality_three_rows:
  "test_normality fixture_lib g 5000 (StatisticalAnalyzer three_rows) =
     Inr \<lparr>normality_DJI = \<lparr>statistic = Fin 1, p_value = Fin (1 / 2), is_normal = True\<rparr>,
          normality_CO2 = \<lparr>statistic = Fin 1, p_value = Fin (1 / 2), is_normal = True\<rparr>\<rparr>"
  by (simp add: test_normality_def fixture_lib_def fgt_def Let_def)

lemma stationarity_three_rows:
  "test_stationarity fixture_lib (StatisticalAnalyzer three_rows) =
     Inr \<lparr>stationarity_DJI =
            \<lparr>adf_statistic = Fin 0, adf_p_value = Fin (1 / 2),
             critical_values = (Fin 0, Fin 0, Fin 0), is_stationary = False\<rparr>,
          stationarity_CO2 =
            \<lparr>adf_statistic = Fin 0, adf_p_value = Fin (1 / 2),
             critical_values = (Fin 0, Fin 0, Fin 0), is_stationary = False\<rparr>\<rparr>"
  by (simp add: test_stationarity_def fixture_lib_def)

lemma wls_three_rows:
  "run_wls_regression fixture_lib (StatisticalAnalyzer three_rows) = Inr [Fin 4, Fin 1, Fin 4]"
  by (simp add: run_wls_regression_def ols_three_rows wls_weights_def np_divide_def
      fixture_lib_def power2_eq_square)

lemma pipeline_three_rows:
  "\<exists>out. perform_statistical_analysis fixture_lib g (collect_data three_rows EconometricAnalysis)
           = Inr out"
  by (simp add: perform_statistical_analysis_def collect_data_def Let_def
      normality_three_rows stationarity_three_rows ols_three_rows het_three_rows
      ac_three_rows wls_three_rows)

section \<open>Autocorrelation flags\<close>

text \<open>
  C7. Whenever \<^verbatim>\<open>test_autocorrelation\<close> returns, the statistic of its result is the
  Durbin-Watson statistic of the OLS residuals and the p-value is the LM p-value the
  Breusch-Godfrey routine returned for the OLS model with 10 lags; the aggregate flag is
  true if and only if the statistic is below 1.5 or above 2.5 or the p-value is below
  0.05; the Durbin-Watson flag is true if and only if the statistic is below 1.5 or above
  2.5; the Breusch-Godfrey flag is true if and only if the p-value is below 0.05.
\<close>

theorem test_autocorrelation_flags:
  "test_autocorrelation lib a = Inr r \<Longrightarrow>
     (\<exists>model bg0 bg2 bg3.
        run_ols_regression a = Inr model
      \<and> dw_statistic (durbin_watson_test r) = durbin_watson (resid model)
      \<and> acorr_breusch_godfrey lib model 10
          = Inr (bg0, bg_lm_p_value (breusch_godfrey r), bg2, bg3))
   \<and> has_autocorrelation r
       = (flt (dw_statistic (durbin_watson_test r)) (Fin (15 / 10))
          \<or> fgt (dw_statistic (durbin_watson_test r)) (Fin (25 / 10))
          \<or> flt (bg_lm_p_value (breusch_godfrey r)) (Fin (5 / 100)))
   \<and> dw_has_autocorrelation (durbin_watson_test r)
       = (flt (dw_statistic (durbin_watson_test r)) (Fin (15 / 10))
          \<or> fgt (dw_statistic (durbin_watson_test r)) (Fin (25 / 10)))
   \<and> bg_has_autocorrelation (breusch_godfrey r)
       = flt (bg_lm_p_value (breusch_godfrey r)) (Fin (5 / 100))"
  by (auto simp: test_autocorrelation_def Let_def split: sum.splits prod.splits)

text \<open>
  On the three observations the Durbin-Watson statistic is 3, above 2.5: its flag and the
  aggregate flag are set, while the Breusch-Godfrey p-value 0.5 sets no flag.
\<close>

theorem test_autocorrelation_flags_witness:
  "(\<exists>r. test_autocorrelation fixture_lib (StatisticalAnalyzer three_rows) = Inr r
      \<and> dw_statistic (durbin_watson_test r) = Fin 3
      \<and> bg_lm_p_value (breusch_godfrey r) = Fin (1 / 2)
      \<and> has_autocorrelation r
      \<and> dw_has_autocorrelation (durbin_watson_test r)
      \<and> \<not> bg_has_autocorrelation (breusch_godfrey r))"
  using test_autocorrelation_flags [OF ac_three_rows] ac_three_rows by simp

section \<open>Determinism of the normality test\<close>

lemma test_normality_cong:
  assumes "fst (sample lib g (Some 42) (min cap (length (self_data a)))
               (map DJI_Close (self_data a)))
         = fst (sample lib g' (Some 42) (min cap (length (self_data a)))
               (map DJI_Close (self_data a)))"
    and "fst (sample lib
               (snd (sample lib g (Some 42) (min cap (length (self_data a)))
                      (map DJI_Close (self_data a))))
               (Some 42) (min cap (length (self_data a))) (map CO2_Level (self_data a)))
       = fst (sample lib
               (snd (sample lib g' (Some 42) (min cap (length (self_data a)))
                      (map DJI_Close (self_data a))))
               (Some 42) (min cap (length (self_data a))) (map CO2_Level (self_data a)))"
  shows "test_normality lib g cap a = test_normality lib g' cap a"
  using assms by (simp add: test_normality_def Let_def split_beta split: sum.splits)

lemma seed_determines_sample_fixture: "seed_determines_sample fixture_lib"
  by (simp add: seed_determines_sample_def fixture_lib_def)

text \<open>
  C9. Two runs of \<^verbatim>\<open>test_normality\<close> on the same data with the same cap return the same
  result (the same statistics, p-values and flags, or the same exception) whatever the
  states \<open>g\<close> and \<open>g'\<close> of the global random generator at the two calls, provided a seeded
  draw of the library does not depend on that state: both draws are made with the seed 42.
\<close>

theorem test_normality_deterministic:
  assumes "seed_determines_sample lib"
  shows "test_normality lib g cap a = test_normality lib g' cap a"
  using assms unfolding seed_determines_sample_def
  by (intro test_normality_cong) blast+

text \<open>
  The stand-in sampler draws by the seed when there is one; the runs from the generator
  states 0 and 7 agree on the three observations.
\<close>

theorem test_normality_deterministic_witness:
  "seed_determines_sample fixture_lib
   \<and> test_normality fixture_lib 0 5000 (StatisticalAnalyzer three_rows)
     = test_normality fixture_lib 7 5000 (StatisticalAnalyzer three_rows)"
  using test_normality_deterministic
          [OF seed_determines_sample_fixture, of 0 5000 "StatisticalAnalyzer three_rows" 7]
        seed_determines_sample_fixture
  by simp

section \<open>The weighted fit is conditional\<close>

text \<open>
  C1. Whenever \<^verbatim>\<open>_perform_statistical_analysis\<close> returns on a freshly constructed
  \<^verbatim>\<open>EconometricAnalysis\<close> holding the collected data, its output holds the result \<open>h\<close> of
  \<^verbatim>\<open>test_heteroscedasticity\<close> and the OLS model, and \<^verbatim>\<open>run_wls_regression\<close> has been called
  if and only if the aggregate flag of \<open>h\<close> is true; the key \<^verbatim>\<open>wls\<close> of the models is
  present if and only if the flag is true, and then holds what \<^verbatim>\<open>run_wls_regression\<close>
  returned; when the flag is false the models hold the OLS result only.
\<close>

theorem wls_iff_heteroscedasticity:
  assumes H: "perform_statistical_analysis lib g (collect_data d EconometricAnalysis) = Inr out"
  shows "\<exists>h ols.
        test_heteroscedasticity lib (StatisticalAnalyzer d) = Inr h
      \<and> stats_heteroscedasticity out = Some h
      \<and> run_ols_regression (StatisticalAnalyzer d) = Inr ols
      \<and> models_ols out = Some ols
      \<and> (''run_wls_regression'' \<in> set (called out)) = has_heteroscedasticity h
      \<and> (models_wls out \<noteq> None) = has_heteroscedasticity h
      \<and> (if has_heteroscedasticity h
          then \<exists>wls. run_wls_regression lib (StatisticalAnalyzer d) = Inr wls
                 \<and> models_wls out = Some wls
          else models_wls out = None)"
proof -
  let ?A = "StatisticalAnalyzer d"
  note defs = perform_statistical_analysis_def collect_data_def EconometricAnalysis_def Let_def
  from H obtain n where n: "test_normality lib g 5000 ?A = Inr n"
    by (cases "test_normality lib g 5000 ?A") (simp_all add: defs)
  from H n obtain st where st: "test_stationarity lib ?A = Inr st"
    by (cases "test_stationarity lib ?A") (simp_all add: defs)
  from H n st obtain ols where ols: "run_ols_regression ?A = Inr ols"
    by (cases "run_ols_regression ?A") (simp_all add: defs)
  from H n st ols obtain h where h: "test_heteroscedasticity lib ?A = Inr h"
    by (cases "test_heteroscedasticity lib ?A") (simp_all add: defs)
  from H n st ols h obtain ac where ac: "test_autocorrelation lib ?A = Inr ac"
    by (cases "test_autocorrelation lib ?A") (simp_all add: defs)
  show ?thesis
  proof (cases "has_heteroscedasticity h")
    case True
    with H n st ols h ac obtain wls where wls: "run_wls_regression lib ?A = Inr wls"
      by (cases "run_wls_regression lib ?A") (simp_all add: defs)
    with True H n st ols h ac show ?thesis
      by (auto simp: defs)
  next
    case False
    with H n st ols h ac show ?thesis
      by (auto simp: defs)
  qed
qed

text \<open>
  On the three observations the stand-in Breusch-Pagan test rejects: the run returns, the
  weighted fit has been called and its result (the weights 4, 1, 4) is stored.
\<close>

theorem wls_iff_heteroscedasticity_witness:
  "\<exists>out h. perform_statistical_analysis fixture_lib (0::nat)
              (collect_data three_rows EconometricAnalysis) = Inr out
     \<and> stats_heteroscedasticity out = Some h
     \<and> has_heteroscedasticity h
     \<and> ''run_wls_regression'' \<in> set (called out)
     \<and> models_wls out = Some [Fin 4, Fin 1, Fin 4]"
proof -
  from pipeline_three_rows [of 0] obtain out where
    out: "perform_statistical_analysis fixture_lib (0::nat)
            (collect_data three_rows EconometricAnalysis) = Inr out" ..
  from wls_iff_heteroscedasticity [OF out] out show ?thesis
    by (auto simp: het_three_rows wls_three_rows)
qed

section \<open>Order of the descriptive statistics\<close>









section \<open>Correlation of a constant series\<close>

lemma sum_list_all_zero: "\<forall>x \<in> set l. x = (0::real) \<Longrightarrow> sum_list l = 0"
  by (induction l) auto








section \<open>Least squares on a constant predictor\<close>

lemma analyzer_flat_co2_rows:
  "StatisticalAnalyzer flat_co2_rows =
     \<lparr>self_data = flat_co2_rows, self_X = Without_const [2, 2, 2], self_y = [1, 2, 3]\<rparr>"
  by (simp add: StatisticalAnalyzer_def prepare_regression_data_def flat_co2_rows_def
      add_constant_def is_nonzero_const_def)

text \<open>
  C4, as the specification states it, fails: on three observations whose predictor is the
  constant 2, \<^verbatim>\<open>run_ols_regression\<close> raises nothing and returns a fitted model, with the
  single parameter 1 and the fitted values 2, 2, 2.
\<close>

theorem run_ols_regression_constant_counterexample:
  "constant_series (map CO2_Level flat_co2_rows)
   \<and> run_ols_regression (StatisticalAnalyzer flat_co2_rows) =
       Inr \<lparr>params = [1], fittedvalues = [2, 2, 2], resid = [- 1, 0, 1],
            endog = [1, 2, 3], exog = Without_const [2, 2, 2]\<rparr>"
proof -
  have "constant_series (map CO2_Level flat_co2_rows)"
    by (simp add: constant_series_def flat_co2_rows_def)
  moreover have "run_ols_regression (StatisticalAnalyzer flat_co2_rows) =
       Inr \<lparr>params = [1], fittedvalues = [2, 2, 2], resid = [- 1, 0, 1],
            endog = [1, 2, 3], exog = Without_const [2, 2, 2]\<rparr>"
    by (simp add: analyzer_flat_co2_rows run_ols_regression_def OLS_fit_def Let_def
        power2_eq_square)
  ultimately show ?thesis by simp
qed

lemma constant_series_all:
  assumes "constant_series xs" and "x \<in> set xs"
  shows "\<forall>y \<in> set xs. y = x"
  using assms by (auto simp: constant_series_def)

lemma map2_const_left:
  "\<forall>x \<in> set xs. x = c \<Longrightarrow> length xs = length ys \<Longrightarrow> map2 (\<lambda>x y. f x y) xs ys = map (f c) ys"
  by (induction xs ys rule: list_induct2') auto

lemma OLS_fit_constant:
  assumes c: "\<forall>x \<in> set xs. x = c" and len: "length xs = length ys" and ne: "ys \<noteq> []"
    and X: "X = (if c \<noteq> 0 then Without_const xs else With_const xs)"
  shows "\<exists>m. OLS_fit ys X = Inr m
           \<and> fittedvalues m = map (\<lambda>x. sum_list ys / real (length ys)) xs"
proof -
  let ?n = "real (length ys)"
  from ne have n: "0 < ?n" by simp
  from c have rep: "xs = replicate (length xs) c"
    by (metis replicate_length_same)
  show ?thesis
  proof (cases "c = 0")
    case True
    have sx: "sum_list xs = 0"
      using c True by (intro sum_list_all_zero) simp
    have "\<forall>v \<in> set (map (\<lambda>x. (x - sum_list xs / real (length xs))\<^sup>2) xs). v = 0"
      using c True sx by simp
    then have sxx: "sum_list (map (\<lambda>x. (x - sum_list xs / real (length xs))\<^sup>2) xs) = 0"
      by (rule sum_list_all_zero)
    show ?thesis
      using True X len ne c sx sxx by (simp add: OLS_fit_def Let_def)
  next
    case False
    have sxx: "sum_list (map (\<lambda>x. x\<^sup>2) xs) = ?n * c\<^sup>2"
    proof -
      have "map (\<lambda>x. x\<^sup>2) xs = replicate (length xs) (c\<^sup>2)"
        using c by (simp add: map_replicate_const [symmetric] cong: map_cong)
      then show ?thesis by (simp add: sum_list_replicate len)
    qed
    have sxy: "sum_list (map2 (\<lambda>x y. x * y) xs ys) = c * sum_list ys"
      using c len by (simp add: map2_const_left sum_list_const_mult)
    have nz: "?n * c\<^sup>2 \<noteq> 0"
      using n False by simp
    have b: "c * sum_list ys / (?n * c\<^sup>2) * c = sum_list ys / ?n"
      using n False by (simp add: power2_eq_square field_simps)
    have "map (\<lambda>x. c * sum_list ys / (?n * c\<^sup>2) * x) xs = map (\<lambda>x. sum_list ys / ?n) xs"
      using c b by (intro map_cong) auto
    then show ?thesis
      using False X len ne nz by (simp add: OLS_fit_def Let_def sxx sxy)
  qed
qed

lemma ols_constant_fit:
  assumes "d \<noteq> []" and "constant_series (map CO2_Level d)"
  shows "\<exists>m. run_ols_regression (StatisticalAnalyzer d) = Inr m
           \<and> fittedvalues m
               = map (\<lambda>r. sum_list (map DJI_Close d) / real (length d)) d"
proof -
  let ?xs = "map CO2_Level d" and ?ys = "map DJI_Close d"
  from assms(1) obtain r where r: "r \<in> set d" by (cases d) auto
  let ?c = "CO2_Level r"
  from r have "?c \<in> set ?xs" by simp
  with assms(2) have c: "\<forall>x \<in> set ?xs. x = ?c"
    by (rule constant_series_all)
  then have ptp: "Max (set ?xs) = ?c" "Min (set ?xs) = ?c"
    using \<open>?c \<in> set ?xs\<close> by (auto intro!: Max_eqI Min_eqI)
  have X: "add_constant ?xs = (if ?c \<noteq> 0 then Without_const ?xs else With_const ?xs)"
    using c ptp assms(1) \<open>?c \<in> set ?xs\<close>
    by (auto simp: add_constant_def is_nonzero_const_def)
  have "\<exists>m. OLS_fit ?ys (add_constant ?xs) = Inr m
           \<and> fittedvalues m = map (\<lambda>x. sum_list ?ys / real (length ?ys)) ?xs"
    using c _ _ X by (rule OLS_fit_constant) (simp_all add: assms(1))
  then show ?thesis
    by (simp add: run_ols_regression_def StatisticalAnalyzer_def prepare_regression_data_def
        comp_def)
qed

text \<open>
  C4, amended. For every non-empty dataset whose predictor is constant,
  \<^verbatim>\<open>run_ols_regression\<close> returns a fitted model, and every fitted value is the mean of the
  index.
\<close>

theorem run_ols_regression_constant:
  assumes "d \<noteq> []" and "constant_series (map CO2_Level d)"
  shows "\<exists>m. run_ols_regression (StatisticalAnalyzer d) = Inr m
           \<and> fittedvalues m
               = map (\<lambda>r. sum_list (map DJI_Close d) / real (length d)) d"
  using assms by (rule ols_constant_fit)

text \<open>The amended statement on three observations whose predictor is zero throughout.\<close>

theorem run_ols_regression_constant_witness:
  "[\<lparr>Date = 0, DJI_Close = 1, CO2_Level = 0\<rparr>, \<lparr>Date = 1, DJI_Close = 5, CO2_Level = 0\<rparr>] \<noteq> []
   \<and> constant_series
       (map CO2_Level
          [\<lparr>Date = 0, DJI_Close = 1, CO2_Level = 0\<rparr>, \<lparr>Date = 1, DJI_Close = 5, CO2_Level = 0\<rparr>])
   \<and> (\<exists>m. run_ols_regression
             (StatisticalAnalyzer
                [\<lparr>Date = 0, DJI_Close = 1, CO2_Level = 0\<rparr>,
                 \<lparr>Date = 1, DJI_Close = 5, CO2_Level = 0\<rparr>]) = Inr m
          \<and> fittedvalues m = [3, 3])"
proof -
  let ?d = "[\<lparr>Date = 0, DJI_Close = 1, CO2_Level = 0\<rparr>,
             \<lparr>Date = 1, DJI_Close = 5, CO2_Level = 0\<rparr>]"
  have ne: "?d \<noteq> []" by simp
  have cs: "constant_series (map CO2_Level ?d)"
    by (simp add: constant_series_def)
  from run_ols_regression_constant [OF ne cs] ne cs show ?thesis by simp
qed

section \<open>The weights of the weighted fit\<close>





end
